theory Spec2Isabelle
  imports Main
begin

section \<open>The command-encoding engine of aucc/main.py\<close>

subsection \<open>Lookup tables\<close>

text \<open>
  The three dictionaries of the module. Python dictionaries keep insertion order, and the
  order of \<open>programs\<close> and \<open>colours\<close> decides the order of the alternatives of the
  regular expression built from their keys, so they are association lists here. A lookup
  \<open>d[k]\<close> is \<open>map_of d k\<close>; a missing key raises \<open>KeyError\<close>.
\<close>

type_synonym frame = "int list"

datatype pykey = IntKey int | StrKey string

datatype error =
    StyleNotFound string  \<comment> \<open>\<open>Exception("Error: Style {} not found")\<close>\<close>
  | KeyError pykey        \<comment> \<open>a dictionary lookup with a key the dictionary lacks\<close>
  | ColorVectorError string  \<comment> \<open>raised by the colour-vector functions of aucc.core.colors\<close>

definition brightness_map :: "(int \<times> int) list" where
  "brightness_map = [(1, 0x08), (2, 0x16), (3, 0x24), (4, 0x32)]"

definition programs :: "(string \<times> int) list" where
  "programs =
    [(''breathing'', 0x02),
     (''wave'', 0x03),
     (''random'', 0x04),
     (''reactive'', 0x04),
     (''rainbow'', 0x05),
     (''ripple'', 0x06),
     (''reactiveripple'', 0x07),
     (''marquee'', 0x09),
     (''fireworks'', 0x11),
     (''raindrop'', 0x0A),
     (''aurora'', 0x0E),
     (''reactiveaurora'', 0x0E)]"

definition colours :: "(string \<times> int) list" where
  "colours =
    [(''r'', 0x01), (''o'', 0x02), (''y'', 0x03), (''g'', 0x04),
     (''b'', 0x05), (''t'', 0x06), (''p'', 0x07)]"

subsection \<open>Matching the style token\<close>

text \<open>
  \<open>light_style_pattern\<close> is \<open>^(k1|...|kn)(c1|...|cm)?$\<close>, the \<open>k\<close> the keys of
  \<open>programs\<close> and the \<open>c\<close> the keys of \<open>colours\<close>, each in dictionary order.
  \<open>re.match\<close> of Python anchors at the start of the token and backtracks: it tries the
  alternatives of the first group from left to right; behind one that fits it tries the
  optional second group (greedy: the alternatives first, the empty match last) and then
  \<open>$\<close>; when \<open>$\<close> fails it goes back and tries the next alternative. Without the
  MULTILINE flag \<open>$\<close> holds at the end of the token and also just before a newline
  that is the token's last character.
\<close>

definition strip_prefix :: "string \<Rightarrow> string \<Rightarrow> string option" where
  "strip_prefix p s = (if take (length p) s = p then Some (drop (length p) s) else None)"

definition at_end :: "string \<Rightarrow> bool" where
  "at_end r = (r = [] \<or> r = [CHR 0x0A])"

fun match_colour :: "string list \<Rightarrow> string \<Rightarrow> string option" where
  "match_colour [] r = None"
| "match_colour (c # cs) r =
     (case strip_prefix c r of
        None \<Rightarrow> match_colour cs r
      | Some r' \<Rightarrow> if at_end r' then Some c else match_colour cs r)"

fun match_program :: "string list \<Rightarrow> string list \<Rightarrow> string \<Rightarrow> (string \<times> string option) option" where
  "match_program [] cs s = None"
| "match_program (p # ps) cs s =
     (case strip_prefix p s of
        None \<Rightarrow> match_program ps cs s
      | Some r \<Rightarrow>
          (case match_colour cs r of
             Some c \<Rightarrow> Some (p, Some c)
           | None \<Rightarrow> if at_end r then Some (p, None) else match_program ps cs s))"

definition light_style_match :: "string \<Rightarrow> (string \<times> string option) option" where
  "light_style_match style = match_program (map fst programs) (map fst colours) style"

subsection \<open>Building the frame\<close>

definition get_code :: "int \<Rightarrow> int \<Rightarrow> int \<Rightarrow> int \<Rightarrow> int \<Rightarrow> int \<Rightarrow> frame" where
  "get_code program speed brightness colour program2 save_changes =
     [0x08, 0x02, program, speed, brightness, colour, program2, save_changes]"

text \<open>
  \<open>get_light_style_code\<close>, in the order of the source: the match (or the exception), the
  three lookups, the overrides by program name, the frame. The defaults \<open>brightness=3\<close>
  and \<open>speed=0x05\<close> are the caller's to pass. \<open>if match[1]\<close> is false for no group
  and for an empty one.
\<close>

definition get_light_style_code :: "string \<Rightarrow> int \<Rightarrow> int \<Rightarrow> error + frame" where
  "get_light_style_code style brightness speed =
     (case light_style_match style of
        None \<Rightarrow> Inl (StyleNotFound style)
      | Some (program, letter) \<Rightarrow>
          (case map_of programs program of
             None \<Rightarrow> Inl (KeyError (StrKey program))
           | Some program_code \<Rightarrow>
               (case (case letter of
                        None \<Rightarrow> Inr 0x08
                      | Some l \<Rightarrow>
                          if l = [] then Inr 0x08
                          else (case map_of colours l of
                                  None \<Rightarrow> Inl (KeyError (StrKey l))
                                | Some c \<Rightarrow> Inr c)) of
                  Inl e \<Rightarrow> Inl e
                | Inr colour_code \<Rightarrow>
                    (case map_of brightness_map brightness of
                       None \<Rightarrow> Inl (KeyError (IntKey brightness))
                     | Some brightness_code \<Rightarrow>
                         (if program = ''rainbow'' then
                            Inr (get_code program_code speed brightness_code 0x00 0x00 0x00)
                          else if program = ''marquee'' then
                            Inr (get_code program_code speed brightness_code 0x08 0x00 0x00)
                          else if program = ''wave'' then
                            Inr (get_code program_code speed brightness_code 0x00 0x01 0x00)
                          else if program \<in> set [''reactive'', ''reactiveaurora'', ''fireworks''] then
                            Inr (get_code program_code speed brightness_code colour_code 0x01 0x00)
                          else
                            Inr (get_code program_code speed brightness_code colour_code 0x00 0x00))))))"

text \<open>
  The grammar the specification gives for a style token, \<open><effect-name>(<color-letter>)?\<close>,
  as the list of its 96 tokens: every effect name alone and followed by each colour letter.
  It is compared with the matcher above, which is the code's.
\<close>

definition grammar_tokens :: "string list" where
  "grammar_tokens =
     concat (map (\<lambda>p. map (\<lambda>c. p @ c) ([] # map fst colours)) (map fst programs))"

section \<open>The device handle of aucc/core/handler.py\<close>

text \<open>
  A \<open>DeviceHandler\<close> wraps a usb device and keeps the four constants of its control
  transfers. The usb library is outside the repository: the calls made on the wrapped
  device are recorded, oldest first, in \<open>calls\<close>, and every call is taken to succeed.
\<close>

record usb_device =
  idVendor :: int
  idProduct :: int

datatype usb_call =
    Ctrl_transfer int int int int frame
      \<comment> \<open>\<open>ctrl_transfer(bmRequestType, bRequest, wValue, wIndex, payload)\<close>\<close>
  | Write "int list"
      \<comment> \<open>\<open>write(out_ep, payload)\<close>\<close>

record DeviceHandler =
  usb_dev :: usb_device
  bmRequestType :: int
  bRequest :: int
  wValue :: int
  wIndex :: int
  calls :: "usb_call list"

definition DeviceHandler_init :: "usb_device \<Rightarrow> DeviceHandler" where
  "DeviceHandler_init d =
     \<lparr>usb_dev = d, bmRequestType = 0x21, bRequest = 0x09, wValue = 0x300, wIndex = 1,
      calls = []\<rparr>"

definition ctrl_call :: "DeviceHandler \<Rightarrow> frame \<Rightarrow> usb_call" where
  "ctrl_call h payload =
     Ctrl_transfer (bmRequestType h) (bRequest h) (wValue h) (wIndex h) payload"

definition ctrl_write :: "frame \<Rightarrow> DeviceHandler \<Rightarrow> DeviceHandler" where
  "ctrl_write payload h = h\<lparr>calls := calls h @ [ctrl_call h payload]\<rparr>"

text \<open>\<open>for _ in range(times): self._device.write(self.out_ep, payload)\<close>\<close>

fun bulk_write :: "nat \<Rightarrow> int list \<Rightarrow> DeviceHandler \<Rightarrow> DeviceHandler" where
  "bulk_write 0 payload h = h"
| "bulk_write (Suc n) payload h = bulk_write n payload (h\<lparr>calls := calls h @ [Write payload]\<rparr>)"

section \<open>The control center of aucc/main.py\<close>

text \<open>
  \<open>ControlCenter\<close> has two fields; \<open>brightness\<close> starts as \<open>None\<close>. A method takes
  the object and the device handler and returns both with what it returned or raised:
  \<open>Inr ()\<close> for a normal return, \<open>Inl e\<close> for the exception \<open>e\<close>, which ends the
  method where it is raised. \<open>if x:\<close> on an optional integer is false for \<open>None\<close>
  and for 0; on an optional string it is false for \<open>None\<close> and for the empty string.
\<close>

record ControlCenter =
  vendor_products :: "(int \<times> int list option) list"
  brightness :: "int option"

type_synonym 'a result = "error + 'a"

type_synonym method_result = "unit result \<times> ControlCenter \<times> DeviceHandler"

definition ControlCenter_init :: "(int \<times> int list option) list \<Rightarrow> ControlCenter" where
  "ControlCenter_init vp = \<lparr>vendor_products = vp, brightness = None\<rparr>"

definition truthy :: "int option \<Rightarrow> bool" where
  "truthy v = (case v of None \<Rightarrow> False | Some n \<Rightarrow> n \<noteq> 0)"

definition truthy_str :: "string option \<Rightarrow> bool" where
  "truthy_str v = (case v of None \<Rightarrow> False | Some s \<Rightarrow> s \<noteq> [])"

definition disable_keyboard :: "ControlCenter \<Rightarrow> DeviceHandler \<Rightarrow> method_result" where
  "disable_keyboard self device =
     (Inr (), self, ctrl_write [0x08, 0x01, 0x00, 0x00, 0x00, 0x00, 0x00, 0x00] device)"

definition keyboard_style ::
  "ControlCenter \<Rightarrow> DeviceHandler \<Rightarrow> string \<Rightarrow> int \<Rightarrow> int \<Rightarrow> method_result" where
  "keyboard_style self device style level speed =
     (case get_light_style_code style level speed of
        Inl e \<Rightarrow> (Inl e, self, device)
      | Inr code \<Rightarrow> (Inr (), self, ctrl_write code device))"

text \<open>
  \<open>adjust_brightness\<close> stores the level before it looks the level up, so a level that
  the table lacks is stored and then raises \<open>KeyError\<close> with no transfer made. With no
  level, or with level 0, it calls itself with level 4.
\<close>

function adjust_brightness ::
  "ControlCenter \<Rightarrow> DeviceHandler \<Rightarrow> int option \<Rightarrow> method_result" where
  "adjust_brightness self device None = adjust_brightness self device (Some 4)"
| "adjust_brightness self device (Some n) =
     (if n \<noteq> 0 then
        (let self' = self\<lparr>brightness := Some n\<rparr> in
         case map_of brightness_map n of
           None \<Rightarrow> (Inl (KeyError (IntKey n)), self', device)
         | Some code \<Rightarrow>
             (Inr (), self',
              ctrl_write [0x08, 0x02, 0x33, 0x00, code, 0x00, 0x00, 0x00] device))
      else adjust_brightness self device (Some 4))"
  by pat_completeness auto
termination
  by (relation "measure (\<lambda>(self, device, level). if truthy level then 0 else 1)")
     (simp_all add: truthy_def)

definition color_scheme_setup :: "DeviceHandler \<Rightarrow> int \<Rightarrow> DeviceHandler" where
  "color_scheme_setup device save_changes =
     ctrl_write [0x12, 0x00, 0x00, 0x08, save_changes, 0x00, 0x00, 0x00] device"

text \<open>
  The three colour-table methods. The functions of \<open>aucc.core.colors\<close> that build the
  colour vectors are not part of the sources at hand: each method takes its function as
  the first argument, a function that returns the vector or raises for a colour name it
  does not know. \<open>color_scheme_setup\<close> is called with its default \<open>save_changes=0x01\<close>.
\<close>

function mono_color_setup ::
  "(string \<Rightarrow> int list result) \<Rightarrow> ControlCenter \<Rightarrow> DeviceHandler \<Rightarrow> string \<Rightarrow> method_result" where
  "mono_color_setup get_mono_color_vector self device color_scheme =
     (if truthy (brightness self) then
        (let device1 = color_scheme_setup device 0x01 in
         case get_mono_color_vector color_scheme of
           Inl e \<Rightarrow> (Inl e, self, device1)
         | Inr color_vector \<Rightarrow> (Inr (), self, bulk_write 8 color_vector device1))
      else
        (case adjust_brightness self device None of
           (Inl e, self', device') \<Rightarrow> (Inl e, self', device')
         | (Inr u, self', device') \<Rightarrow>
             mono_color_setup get_mono_color_vector self' device' color_scheme))"
  by pat_completeness auto
termination
  by (relation "measure (\<lambda>(g, self, device, c). if truthy (brightness self) then 0 else 1)")
     (auto simp: truthy_def brightness_map_def)

function h_alt_color_setup ::
  "(string \<Rightarrow> string \<Rightarrow> int list result) \<Rightarrow> ControlCenter \<Rightarrow> DeviceHandler \<Rightarrow>
     string \<Rightarrow> string \<Rightarrow> method_result" where
  "h_alt_color_setup get_h_alt_color_vector self device color_scheme_a color_scheme_b =
     (if truthy (brightness self) then
        (let device1 = color_scheme_setup device 0x01 in
         case get_h_alt_color_vector color_scheme_a color_scheme_b of
           Inl e \<Rightarrow> (Inl e, self, device1)
         | Inr color_vector \<Rightarrow> (Inr (), self, bulk_write 8 color_vector device1))
      else
        (case adjust_brightness self device None of
           (Inl e, self', device') \<Rightarrow> (Inl e, self', device')
         | (Inr u, self', device') \<Rightarrow>
             h_alt_color_setup get_h_alt_color_vector self' device' color_scheme_a color_scheme_b))"
  by pat_completeness auto
termination
  by (relation "measure (\<lambda>(g, self, device, a, b). if truthy (brightness self) then 0 else 1)")
     (auto simp: truthy_def brightness_map_def)

function v_alt_color_setup ::
  "(string \<Rightarrow> string \<Rightarrow> int list result) \<Rightarrow> ControlCenter \<Rightarrow> DeviceHandler \<Rightarrow>
     string \<Rightarrow> string \<Rightarrow> method_result" where
  "v_alt_color_setup get_v_alt_color_vector self device color_scheme_a color_scheme_b =
     (if truthy (brightness self) then
        (let device1 = color_scheme_setup device 0x01 in
         case get_v_alt_color_vector color_scheme_a color_scheme_b of
           Inl e \<Rightarrow> (Inl e, self, device1)
         | Inr color_vector \<Rightarrow> (Inr (), self, bulk_write 8 color_vector device1))
      else
        (case adjust_brightness self device None of
           (Inl e, self', device') \<Rightarrow> (Inl e, self', device')
         | (Inr u, self', device') \<Rightarrow>
             v_alt_color_setup get_v_alt_color_vector self' device' color_scheme_a color_scheme_b))"
  by pat_completeness auto
termination
  by (relation "measure (\<lambda>(g, self, device, a, b). if truthy (brightness self) then 0 else 1)")
     (auto simp: truthy_def brightness_map_def)

section \<open>The program: main of aucc/main.py\<close>

text \<open>
  \<open>main\<close> from the call of \<open>get_devices\<close> on: its inputs are the parsed command line,
  the dictionary \<open>vendor_products\<close> built from it, and the devices \<open>get_devices\<close>
  found. It returns what it printed, how it ended, and the control center and device
  handler it worked with (\<open>None\<close> when it ended before a handler was made). The
  operations \<open>-l\<close>, \<open>-c\<close>, \<open>-H\<close>, \<open>-V\<close>, \<open>-s\<close>, \<open>-d\<close> exclude each other on the
  command line; the modifiers \<open>-D\<close>, \<open>-b\<close> and \<open>--speed\<close> are integers.
\<close>

record parsed_args =
  parsed_list_devices :: bool
  parsed_color :: "string option"
  parsed_h_alt :: "(string \<times> string) option"
  parsed_v_alt :: "(string \<times> string) option"
  parsed_style :: "string option"
  parsed_disable :: bool
  parsed_device :: "int option"
  parsed_brightness :: "int option"
  parsed_speed :: "int option"

datatype message =
    DeviceLine nat int int
      \<comment> \<open>\<open>[{idx+1}] device #{idx+1} vendor={device.idVendor}, product={device.idProduct}\<close>\<close>
  | DeviceDoesNotExist int nat
      \<comment> \<open>\<open>Device #{parsed.device} does not exist, there are {len(devices)} devices.\<close>\<close>
  | NoDeviceFound
  | FoundMultipleDevices
  | InvalidOrAbsentCommand

datatype ending =
    Returned           \<comment> \<open>\<open>main\<close> returned: exit status 0\<close>
  | SysExit int        \<comment> \<open>\<open>sys.exit(n)\<close>\<close>
  | Uncaught error     \<comment> \<open>an exception left \<open>main\<close>\<close>

type_synonym main_result =
  "message list \<times> ending \<times> (ControlCenter \<times> DeviceHandler) option"

text \<open>
  Lines 241 to 254: the device to work with, or the message and the exit.
  \<open>if parsed.device:\<close> is false for no index and for the index 0.
\<close>

definition select_device ::
  "parsed_args \<Rightarrow> usb_device list \<Rightarrow> (message list \<times> ending) + usb_device" where
  "select_device parsed devices =
     (let without_index =
            (if length devices = 0 then Inl ([NoDeviceFound], SysExit 1)
             else if length devices > 1 then Inl ([FoundMultipleDevices], SysExit 1)
             else Inr (devices ! 0))
      in case parsed_device parsed of
           None \<Rightarrow> without_index
         | Some d \<Rightarrow>
             if d \<noteq> 0 then
               (if d < 1 \<or> d - 1 \<ge> int (length devices) then
                  Inl ([DeviceDoesNotExist d (length devices)], SysExit 1)
                else Inr (devices ! nat (d - 1)))
             else without_index)"

definition ended :: "message list \<Rightarrow> method_result \<Rightarrow> main_result" where
  "ended out r =
     (case r of
        (Inl e, control, h) \<Rightarrow> (out, Uncaught e, Some (control, h))
      | (Inr u, control, h) \<Rightarrow> (out, Returned, Some (control, h)))"

text \<open>
  Lines 256 to 277: the handler and the operation. \<open>given v\<close> is the value of an
  optional string argument when \<open>if v:\<close> holds.
\<close>

definition given :: "string option \<Rightarrow> string option" where
  "given v = (if truthy_str v then v else None)"

definition dispatch ::
  "(string \<Rightarrow> int list result) \<Rightarrow> (string \<Rightarrow> string \<Rightarrow> int list result) \<Rightarrow>
   (string \<Rightarrow> string \<Rightarrow> int list result) \<Rightarrow>
   ControlCenter \<Rightarrow> parsed_args \<Rightarrow> usb_device \<Rightarrow> main_result" where
  "dispatch get_mono_color_vector get_h_alt_color_vector get_v_alt_color_vector
     control parsed device =
     (let device_handler = DeviceHandler_init device in
      if parsed_disable parsed then ended [] (disable_keyboard control device_handler)
      else
        (case given (parsed_style parsed) of
           Some style \<Rightarrow>
             (let speed = (case parsed_speed parsed of
                             None \<Rightarrow> 5
                           | Some v \<Rightarrow> if v \<noteq> 0 then v else 5);
                  level = (case parsed_brightness parsed of
                             None \<Rightarrow> 3
                           | Some b \<Rightarrow> if b \<noteq> 0 then b else 3)
              in ended [] (keyboard_style control device_handler style level speed))
         | None \<Rightarrow>
             (case (if truthy (parsed_brightness parsed)
                    then adjust_brightness control device_handler (parsed_brightness parsed)
                    else (Inr (), control, device_handler)) of
                (Inl e, control1, handler1) \<Rightarrow> ([], Uncaught e, Some (control1, handler1))
              | (Inr u, control1, handler1) \<Rightarrow>
                  (case given (parsed_color parsed) of
                     Some color \<Rightarrow>
                       ended [] (mono_color_setup get_mono_color_vector control1 handler1 color)
                   | None \<Rightarrow>
                       (case parsed_h_alt parsed of
                          Some (a, b) \<Rightarrow>
                            ended []
                              (h_alt_color_setup get_h_alt_color_vector control1 handler1 a b)
                        | None \<Rightarrow>
                            (case parsed_v_alt parsed of
                               Some (a, b) \<Rightarrow>
                                 ended []
                                   (v_alt_color_setup get_v_alt_color_vector control1 handler1 a b)
                             | None \<Rightarrow>
                                 ([InvalidOrAbsentCommand], Returned,
                                  Some (control1, handler1))))))))"

definition main ::
  "(string \<Rightarrow> int list result) \<Rightarrow> (string \<Rightarrow> string \<Rightarrow> int list result) \<Rightarrow>
   (string \<Rightarrow> string \<Rightarrow> int list result) \<Rightarrow>
   (int \<times> int list option) list \<Rightarrow> parsed_args \<Rightarrow> usb_device list \<Rightarrow> main_result" where
  "main get_mono_color_vector get_h_alt_color_vector get_v_alt_color_vector
     vendor_products' parsed devices =
     (let control = ControlCenter_init vendor_products' in
      if parsed_list_devices parsed then
        (map (\<lambda>(idx, device). DeviceLine (idx + 1) (idVendor device) (idProduct device))
           (enumerate 0 devices),
         Returned, None)
      else
        (case select_device parsed devices of
           Inl (out, e) \<Rightarrow> (out, e, None)
         | Inr device \<Rightarrow>
             dispatch get_mono_color_vector get_h_alt_color_vector get_v_alt_color_vector
               control parsed device))"

text \<open>The usb calls of a run of \<open>main\<close>, oldest first.\<close>

definition calls_of :: "main_result \<Rightarrow> usb_call list" where
  "calls_of r = (case r of (out, e, None) \<Rightarrow> [] | (out, e, Some (control, h)) \<Rightarrow> calls h)"

text \<open>
  A brightness-set control transfer carries a frame [0x08, 0x02, 0x33, 0x00, b, 0, 0, 0].
  \<open>bulk_guarded seen cs\<close> reads the calls \<open>cs\<close> in order and holds when every bulk
  write has a brightness-set transfer before it (\<open>seen\<close>: one was made before \<open>cs\<close>).
\<close>

definition is_brightness_set :: "usb_call \<Rightarrow> bool" where
  "is_brightness_set c =
     (case c of
        Ctrl_transfer t r v i payload \<Rightarrow>
          length payload = 8 \<and> take 4 payload = [0x08, 0x02, 0x33, 0x00] \<and>
          drop 5 payload = [0x00, 0x00, 0x00]
      | Write payload \<Rightarrow> False)"

fun bulk_guarded :: "bool \<Rightarrow> usb_call list \<Rightarrow> bool" where
  "bulk_guarded seen [] = True"
| "bulk_guarded seen (Write payload # cs) = (seen \<and> bulk_guarded seen cs)"
| "bulk_guarded seen (c # cs) = bulk_guarded (seen \<or> is_brightness_set c) cs"

text \<open>
  The calls a colour-table method makes on a control center with no brightness stored:
  the brightness-set transfer for level 4, the transfer of the persist frame, and eight
  bulk writes of the colour vector \<open>v\<close>.
\<close>

definition bootstrap_calls :: "DeviceHandler \<Rightarrow> int list \<Rightarrow> usb_call list" where
  "bootstrap_calls h v =
     [ctrl_call h [0x08, 0x02, 0x33, 0x00, 0x32, 0x00, 0x00, 0x00],
      ctrl_call h [0x12, 0x00, 0x00, 0x08, 0x01, 0x00, 0x00, 0x00]] @
     replicate 8 (Write v)"

section \<open>Properties of the style resolver\<close>

lemmas style_defs =
  get_light_style_code_def light_style_match_def programs_def colours_def
  brightness_map_def strip_prefix_def at_end_def get_code_def

subsection \<open>What the matcher accepts\<close>

text \<open>
  A match of the second group leaves exactly the letter, or the letter and a final
  newline; a match of the pattern is an effect name, an optional letter and an optional
  final newline.
\<close>

lemma match_colour_sound:
  "match_colour cs r = Some c \<Longrightarrow> c \<in> set cs \<and> (r = c \<or> r = c @ [CHR 0x0A])"
proof (induction cs)
  case Nil
  then show ?case by simp
next
  case (Cons a cs)
  show ?case
  proof (cases "take (length a) r = a \<and> at_end (drop (length a) r)")
    case True
    with Cons.prems have "c = a" by (simp add: strip_prefix_def)
    moreover from True have "r = a \<or> r = a @ [CHR 0x0A]"
      unfolding at_end_def by (metis append_take_drop_id append_Nil2)
    ultimately show ?thesis by simp
  next
    case False
    with Cons.prems have "match_colour cs r = Some c"
      by (auto simp: strip_prefix_def split: if_splits)
    with Cons.IH show ?thesis by auto
  qed
qed

lemma match_program_sound:
  "match_program ps cs s = Some (p, g) \<Longrightarrow>
     p \<in> set ps \<and>
     (case g of
        None \<Rightarrow> s = p \<or> s = p @ [CHR 0x0A]
      | Some c \<Rightarrow> c \<in> set cs \<and> (s = p @ c \<or> s = p @ c @ [CHR 0x0A]))"
proof (induction ps)
  case Nil
  then show ?case by simp
next
  case (Cons a ps)
  show ?case
  proof (cases "take (length a) s = a")
    case False
    with Cons.prems have "match_program ps cs s = Some (p, g)"
      by (simp add: strip_prefix_def)
    with Cons.IH show ?thesis by auto
  next
    case True
    then have s: "s = a @ drop (length a) s" by (metis append_take_drop_id)
    show ?thesis
    proof (cases "match_colour cs (drop (length a) s)")
      case (Some c)
      with True Cons.prems have pg: "p = a" "g = Some c" by (simp_all add: strip_prefix_def)
      from match_colour_sound[OF Some] s pg show ?thesis by auto
    next
      case None
      show ?thesis
      proof (cases "at_end (drop (length a) s)")
        case rest: True
        with True None Cons.prems have pg: "p = a" "g = None" by (simp_all add: strip_prefix_def)
        from rest s have "s = a \<or> s = a @ [CHR 0x0A]"
          unfolding at_end_def by (metis append_Nil2)
        with pg show ?thesis by simp
      next
        case False
        with True None Cons.prems have "match_program ps cs s = Some (p, g)"
          by (simp add: strip_prefix_def)
        with Cons.IH show ?thesis by auto
      qed
    qed
  qed
qed

lemma match_program_no_prefix:
  "(\<forall>p \<in> set ps. take (length p) s \<noteq> p) \<Longrightarrow> match_program ps cs s = None"
  by (induction ps) (auto simp: strip_prefix_def)

lemma light_style_match_grammar:
  assumes "light_style_match s = Some (p, g)"
  shows "s \<in> set grammar_tokens \<or> s \<in> set (map (\<lambda>t. t @ [CHR 0x0A]) grammar_tokens)"
proof -
  from match_program_sound[OF assms[unfolded light_style_match_def]]
  have p: "p \<in> set (map fst programs)"
    and g: "case g of None \<Rightarrow> s = p \<or> s = p @ [CHR 0x0A]
      | Some c \<Rightarrow> c \<in> set (map fst colours) \<and> (s = p @ c \<or> s = p @ c @ [CHR 0x0A])"
    by simp_all
  show ?thesis
  proof (cases g)
    case None
    with g p show ?thesis unfolding grammar_tokens_def by force
  next
    case (Some c)
    with g p show ?thesis unfolding grammar_tokens_def by force
  qed
qed

lemma colour_letter_cases:
  "[c] \<notin> set (map fst colours) \<Longrightarrow>
     c \<noteq> CHR ''r'' \<and> c \<noteq> CHR ''o'' \<and> c \<noteq> CHR ''y'' \<and> c \<noteq> CHR ''g'' \<and>
     c \<noteq> CHR ''b'' \<and> c \<noteq> CHR ''t'' \<and> c \<noteq> CHR ''p''"
  by (simp add: colours_def)

lemma program_cases:
  "p \<in> set (map fst programs) \<Longrightarrow>
     p = ''breathing'' \<or> p = ''wave'' \<or> p = ''random'' \<or> p = ''reactive'' \<or>
     p = ''rainbow'' \<or> p = ''ripple'' \<or> p = ''reactiveripple'' \<or> p = ''marquee'' \<or>
     p = ''fireworks'' \<or> p = ''raindrop'' \<or> p = ''aurora'' \<or> p = ''reactiveaurora''"
  by (simp add: programs_def)

lemma letter_cases:
  "c \<in> set ([] # map fst colours) \<Longrightarrow>
     c = [] \<or> c = ''r'' \<or> c = ''o'' \<or> c = ''y'' \<or> c = ''g'' \<or> c = ''b'' \<or> c = ''t'' \<or> c = ''p''"
  by (simp add: colours_def)

lemma no_match_bad_letter:
  assumes p: "p \<in> set (map fst programs)"
    and c: "[c] \<notin> set (map fst colours)" and n: "c \<noteq> CHR 0x0A"
  shows "light_style_match (p @ [c]) = None"
  using program_cases[OF p] colour_letter_cases[OF c] n
  by (elim disjE; simp add: light_style_match_def programs_def colours_def strip_prefix_def at_end_def)

lemma no_match_no_prefix:
  "(\<forall>p \<in> set (map fst programs). take (length p) s \<noteq> p) \<Longrightarrow> light_style_match s = None"
  unfolding light_style_match_def by (rule match_program_no_prefix)

lemma no_match_outside_grammar:
  assumes "s \<notin> set grammar_tokens" "s \<notin> set (map (\<lambda>t. t @ [CHR 0x0A]) grammar_tokens)"
  shows "light_style_match s = None"
proof (cases "light_style_match s")
  case None
  then show ?thesis .
next
  case (Some pg)
  obtain p g where "pg = (p, g)" by (cases pg)
  with Some light_style_match_grammar[of s p g] assms show ?thesis by blast
qed

lemma no_match_fails:
  "light_style_match s = None \<Longrightarrow> get_light_style_code s b sp = Inl (StyleNotFound s)"
  by (simp add: get_light_style_code_def)

lemma wave_tokens:
  assumes c: "c \<in> set ([] # map fst colours)"
  shows "light_style_match (''wave'' @ c) = Some (''wave'', if c = [] then None else Some c)"
  using letter_cases[OF c]
  by (elim disjE; simp add: light_style_match_def programs_def colours_def strip_prefix_def at_end_def)

subsection \<open>What a matched token resolves to\<close>

lemma matched_program_known:
  assumes "light_style_match s = Some (p, g)"
  shows "\<exists>code. map_of programs p = Some code"
proof -
  from match_program_sound[OF assms[unfolded light_style_match_def]]
  have "p \<in> fst ` set programs" by simp
  then have "map_of programs p \<noteq> None" by (simp add: map_of_eq_None_iff)
  then show ?thesis by blast
qed

lemma matched_colour_known:
  assumes "light_style_match s = Some (p, Some c)"
  shows "c \<noteq> [] \<and> (\<exists>code. map_of colours c = Some code)"
proof -
  from match_program_sound[OF assms[unfolded light_style_match_def]]
  have c: "c \<in> fst ` set colours" by simp
  then have "map_of colours c \<noteq> None" by (simp add: map_of_eq_None_iff)
  moreover from c have "c \<noteq> []" by (auto simp: colours_def)
  ultimately show ?thesis by blast
qed

lemma matched_style_returns:
  assumes m: "light_style_match s = Some (p, g)"
    and b: "map_of brightness_map b = Some bc"
  shows "\<exists>pc cc p2. get_light_style_code s b sp = Inr [0x08, 0x02, pc, sp, bc, cc, p2, 0x00] \<and>
           map_of programs p = Some pc \<and> (p = ''wave'' \<longrightarrow> cc = 0x00 \<and> p2 = 0x01)"
proof -
  from matched_program_known[OF m] obtain pc where pc: "map_of programs p = Some pc" by blast
  show ?thesis
  proof (cases g)
    case None
    with m b pc show ?thesis by (simp add: get_light_style_code_def get_code_def)
  next
    case (Some c)
    with matched_colour_known[of s p c] m obtain cc where "c \<noteq> []" "map_of colours c = Some cc"
      by blast
    with Some m b pc show ?thesis by (simp add: get_light_style_code_def get_code_def)
  qed
qed

lemma bad_brightness_fails:
  assumes m: "light_style_match s = Some (p, g)"
    and b: "map_of brightness_map b = None"
  shows "get_light_style_code s b sp = Inl (KeyError (IntKey b))"
proof -
  from matched_program_known[OF m] obtain pc where pc: "map_of programs p = Some pc" by blast
  show ?thesis
  proof (cases g)
    case None
    with m b pc show ?thesis by (simp add: get_light_style_code_def)
  next
    case (Some c)
    with matched_colour_known[of s p c] m obtain cc where "c \<noteq> []" "map_of colours c = Some cc"
      by blast
    with Some m b pc show ?thesis by (simp add: get_light_style_code_def)
  qed
qed

lemma brightness_map_dom: "map_of brightness_map b = None \<longleftrightarrow> b \<notin> {1, 2, 3, 4}"
  by (simp add: brightness_map_def)

subsection \<open>The claims about the style resolver\<close>

text \<open>
  C2. The token \<open>rippler\<close> (effect ripple, colour letter r) with brightness level 3 and
  speed 5 resolves to the frame (0x08, 0x02, 0x06, 0x05, 0x24, 0x01, 0x00, 0x00).
\<close>

theorem ripple_red_frame:
  "get_light_style_code ''rippler'' 3 5 = Inr [0x08, 0x02, 0x06, 0x05, 0x24, 0x01, 0x00, 0x00]"
  by (simp add: style_defs)

text \<open>
  C10. The token \<open>reactiveripple\<close> with the default brightness 3 and speed 5 resolves
  to the frame of the reactive-ripple effect (code 0x07, rainbow colour 0x08, secondary
  byte 0x00): the match takes the whole name as the effect and no colour letter, although
  \<open>reactive\<close> stands earlier among the alternatives and is a prefix of the token.
\<close>

theorem reactiveripple_frame:
  "light_style_match ''reactiveripple'' = Some (''reactiveripple'', None) \<and>
   get_light_style_code ''reactiveripple'' 3 5
     = Inr [0x08, 0x02, 0x07, 0x05, 0x24, 0x08, 0x00, 0x00]"
  by (simp add: style_defs)

text \<open>
  What the resolver rejects. A token fails with the style-not-found exception, and no
  frame is returned, when no effect name is a prefix of it (as \<open>unknownname\<close>), when it
  is an effect name followed by one character that is neither a colour letter nor a
  newline (as \<open>ripplez\<close>), and when it is neither a token of the grammar
  \<open><effect-name>(<color-letter>)?\<close> nor such a token followed by one newline.
\<close>

lemma unknown_style_rejected:
  "((\<forall>p \<in> set (map fst programs). take (length p) s \<noteq> p) \<longrightarrow>
      get_light_style_code s b sp = Inl (StyleNotFound s)) \<and>
   (p \<in> set (map fst programs) \<and> [c] \<notin> set (map fst colours) \<and> c \<noteq> CHR 0x0A \<longrightarrow>
      get_light_style_code (p @ [c]) b sp = Inl (StyleNotFound (p @ [c]))) \<and>
   (t \<notin> set grammar_tokens \<and> t \<notin> set (map (\<lambda>u. u @ [CHR 0x0A]) grammar_tokens) \<longrightarrow>
      get_light_style_code t b sp = Inl (StyleNotFound t))"
  using no_match_no_prefix[of s] no_match_bad_letter[of p c] no_match_outside_grammar[of t]
    no_match_fails[of s b sp] no_match_fails[of "p @ [c]" b sp] no_match_fails[of t b sp]
  by blast

lemma unknown_style_rejected_example:
  "get_light_style_code ''unknownname'' 3 5 = Inl (StyleNotFound ''unknownname'') \<and>
   get_light_style_code ''ripplez'' 3 5 = Inl (StyleNotFound ''ripplez'') \<and>
   get_light_style_code ''ripplerr'' 3 5 = Inl (StyleNotFound ''ripplerr'')"
  using unknown_style_rejected[of "''unknownname''" 3 5 "''ripple''" "CHR ''z''" "''ripplerr''"]
  by (simp add: programs_def colours_def grammar_tokens_def)

text \<open>
  C3. A token with anything behind the effect name and the colour letter is to fail with
  the style-not-found exception, nothing behind the name being dropped in silence. The
  code does not do so for a final newline. The pattern is closed by \<open>$\<close>, which in
  Python holds at the end of the token and also before a newline that ends it: the token
  \<open>ripple\<close> followed by a newline matches with the groups (ripple, none), the newline
  is dropped, and the frame of \<open>ripple\<close> is returned. The same holds behind a colour
  letter.
\<close>

theorem trailing_newline_accepted:
  "light_style_match (''ripple'' @ [CHR 0x0A]) = Some (''ripple'', None) \<and>
   get_light_style_code (''ripple'' @ [CHR 0x0A]) 3 5
     = Inr [0x08, 0x02, 0x06, 0x05, 0x24, 0x08, 0x00, 0x00] \<and>
   get_light_style_code (''rippler'' @ [CHR 0x0A]) 3 5
     = Inr [0x08, 0x02, 0x06, 0x05, 0x24, 0x01, 0x00, 0x00]"
  by (simp add: style_defs)

text \<open>
  C4. Every token whose effect is \<open>wave\<close> resolves to a frame with colour byte 0x00 and
  secondary-effect byte 0x01. First for the tokens of the grammar, \<open>wave\<close> alone and
  with each of the seven letters, at every brightness level of the table and every speed:
  the frame is returned and is the one shown. Then for any token at all that the matcher
  reads as \<open>wave\<close>: the frame it returns has 0x00 at position 5 and 0x01 at position 6.
\<close>

theorem wave_forces_colour_and_secondary:
  "(c \<in> set ([] # map fst colours) \<and> map_of brightness_map b = Some bc \<longrightarrow>
      get_light_style_code (''wave'' @ c) b sp = Inr [0x08, 0x02, 0x03, sp, bc, 0x00, 0x01, 0x00]) \<and>
   (light_style_match s = Some (''wave'', g) \<and> get_light_style_code s b sp = Inr f \<longrightarrow>
      f ! 5 = 0x00 \<and> f ! 6 = 0x01)"
proof (intro conjI impI)
  assume a: "c \<in> set ([] # map fst colours) \<and> map_of brightness_map b = Some bc"
  from matched_style_returns[OF wave_tokens, of c b bc sp] a
  show "get_light_style_code (''wave'' @ c) b sp = Inr [0x08, 0x02, 0x03, sp, bc, 0x00, 0x01, 0x00]"
    by (auto simp: programs_def)
next
  assume a: "light_style_match s = Some (''wave'', g) \<and> get_light_style_code s b sp = Inr f"
  show "f ! 5 = 0x00" "f ! 6 = 0x01"
  proof -
    have "map_of brightness_map b \<noteq> None"
      using a bad_brightness_fails[of s "''wave''" g b sp] by auto
    then obtain bc where "map_of brightness_map b = Some bc" by blast
    from matched_style_returns[of s "''wave''" g b bc sp] this a
    show "f ! 5 = 0x00" "f ! 6 = 0x01" by auto
  qed
qed

theorem wave_forces_colour_and_secondary_witness:
  "get_light_style_code ''waver'' 2 7 = Inr [0x08, 0x02, 0x03, 7, 0x16, 0x00, 0x01, 0x00] \<and>
   ([0x08, 0x02, 0x03, 7, 0x16, 0x00, 0x01, 0x00 :: int] ! 5 = 0x00 \<and>
    [0x08, 0x02, 0x03, 7, 0x16, 0x00, 0x01, 0x00 :: int] ! 6 = 0x01)"
proof -
  have m: "light_style_match ''waver'' = Some (''wave'', Some ''r'')"
    by (simp add: light_style_match_def programs_def colours_def strip_prefix_def at_end_def)
  have c: "''r'' \<in> set ([] # map fst colours)" by (simp add: colours_def)
  have b: "map_of brightness_map 2 = Some 0x16" by (simp add: brightness_map_def)
  have r: "get_light_style_code ''waver'' 2 7 = Inr [0x08, 0x02, 0x03, 7, 0x16, 0x00, 0x01, 0x00]"
    using wave_forces_colour_and_secondary[where c = "''r''" and b = 2 and bc = "0x16" and sp = 7] c b
    by simp
  from wave_forces_colour_and_secondary[where s = "''waver''" and g = "Some ''r''" and b = 2
      and sp = 7 and f = "[0x08, 0x02, 0x03, 7, 0x16, 0x00, 0x01, 0x00]"] m r
  show ?thesis by blast
qed

text \<open>
  C5. With a brightness level other than 1, 2, 3, 4 (0 and 5 among them) the resolver
  returns no frame: it raises, and for a token that matches the pattern what it raises
  is the \<open>KeyError\<close> of the brightness table (a token that does not match has raised
  the style-not-found exception before the table is read). The table maps 1, 2, 3, 4 to
  0x08, 0x16, 0x24, 0x32, one to one and onto, and for a matched token the level's byte
  is byte 4 of the frame.
\<close>

theorem brightness_levels:
  "(b \<notin> {1, 2, 3, 4} \<longrightarrow>
      (\<exists>e. get_light_style_code s b sp = Inl e) \<and>
      (light_style_match s \<noteq> None \<longrightarrow> get_light_style_code s b sp = Inl (KeyError (IntKey b)))) \<and>
   map_of brightness_map 1 = Some 0x08 \<and> map_of brightness_map 2 = Some 0x16 \<and>
   map_of brightness_map 3 = Some 0x24 \<and> map_of brightness_map 4 = Some 0x32 \<and>
   bij_betw (map_of brightness_map) {1, 2, 3, 4} (Some ` {0x08, 0x16, 0x24, 0x32}) \<and>
   (light_style_match s \<noteq> None \<and> map_of brightness_map b = Some bc \<longrightarrow>
      (\<exists>f. get_light_style_code s b sp = Inr f \<and> f ! 4 = bc))"
proof -
  have bad: "(\<exists>e. get_light_style_code s b sp = Inl e) \<and>
      (light_style_match s \<noteq> None \<longrightarrow> get_light_style_code s b sp = Inl (KeyError (IntKey b)))"
    if "b \<notin> {1, 2, 3, 4}"
  proof (cases "light_style_match s")
    case None
    then show ?thesis by (simp add: no_match_fails)
  next
    case (Some pg)
    obtain p g where "pg = (p, g)" by (cases pg)
    with Some that bad_brightness_fails[of s p g b sp] show ?thesis
      by (simp add: brightness_map_dom)
  qed
  have tab: "map_of brightness_map 1 = Some 0x08" "map_of brightness_map 2 = Some 0x16"
    "map_of brightness_map 3 = Some 0x24" "map_of brightness_map 4 = Some 0x32"
    by (simp_all add: brightness_map_def)
  have bij: "bij_betw (map_of brightness_map) {1, 2, 3, 4} (Some ` {0x08, 0x16, 0x24, 0x32})"
    unfolding bij_betw_def by (simp add: tab)
  have good: "\<exists>f. get_light_style_code s b sp = Inr f \<and> f ! 4 = bc"
    if "light_style_match s \<noteq> None \<and> map_of brightness_map b = Some bc"
  proof -
    from that obtain p g where "light_style_match s = Some (p, g)" by auto
    from matched_style_returns[OF this, of b bc sp] that show ?thesis by auto
  qed
  from bad tab bij good show ?thesis by blast
qed

theorem brightness_levels_witness:
  "get_light_style_code ''ripple'' 5 5 = Inl (KeyError (IntKey 5)) \<and>
   (\<exists>f. get_light_style_code ''ripple'' 4 5 = Inr f \<and> f ! 4 = 0x32)"
proof -
  have m: "light_style_match ''ripple'' \<noteq> None"
    by (simp add: light_style_match_def programs_def colours_def strip_prefix_def at_end_def)
  from brightness_levels[of 5 "''ripple''" 5] m
  have 1: "get_light_style_code ''ripple'' 5 5 = Inl (KeyError (IntKey 5))" by simp
  from brightness_levels[of 4 "''ripple''" 5 "0x32"] m
  have 2: "\<exists>f. get_light_style_code ''ripple'' 4 5 = Inr f \<and> f ! 4 = 0x32" by simp
  from 1 2 show ?thesis by blast
qed

text \<open>
  C6, as the claim states it, fails: the resolver does not look at the speed. Speed 0
  with the token \<open>ripple\<close> and brightness 3 returns a frame whose speed byte is 0.
\<close>

theorem speed_zero_accepted:
  "get_light_style_code ''ripple'' 3 0 = Inr [0x08, 0x02, 0x06, 0x00, 0x24, 0x08, 0x00, 0x00]"
  by (simp add: style_defs)

text \<open>
  C6, amended. The resolver never rejects a speed. For every integer speed, in the range
  1 to 10 or not, a token that matches the pattern with a brightness level of the table
  returns a frame of 8 bytes whose byte 3 is the speed as given; and a call that fails
  fails with the same exception at any other speed.
\<close>

theorem speed_stored_unchecked:
  "(light_style_match s \<noteq> None \<and> map_of brightness_map b = Some bc \<longrightarrow>
      (\<exists>f. get_light_style_code s b sp = Inr f \<and> length f = 8 \<and> f ! 3 = sp)) \<and>
   (get_light_style_code s b sp = Inl e \<longrightarrow> get_light_style_code s b sp' = Inl e)"
proof (intro conjI impI)
  assume a: "light_style_match s \<noteq> None \<and> map_of brightness_map b = Some bc"
  then obtain p g where "light_style_match s = Some (p, g)" by auto
  from matched_style_returns[OF this, of b bc sp] a
  show "\<exists>f. get_light_style_code s b sp = Inr f \<and> length f = 8 \<and> f ! 3 = sp" by auto
next
  assume e: "get_light_style_code s b sp = Inl e"
  show "get_light_style_code s b sp' = Inl e"
  proof (cases "light_style_match s")
    case None
    with e show ?thesis by (simp add: no_match_fails)
  next
    case (Some pg)
    obtain p g where pg: "pg = (p, g)" by (cases pg)
    show ?thesis
    proof (cases "map_of brightness_map b")
      case None
      with Some pg e bad_brightness_fails[of s p g b] show ?thesis by simp
    next
      case (Some bc)
      with \<open>light_style_match s = Some pg\<close> pg matched_style_returns[of s p g b bc sp] e
      show ?thesis by auto
    qed
  qed
qed

theorem speed_stored_unchecked_witness:
  "(\<exists>f. get_light_style_code ''ripple'' 3 11 = Inr f \<and> length f = 8 \<and> f ! 3 = 11) \<and>
   get_light_style_code ''ripplez'' 3 11 = Inl (StyleNotFound ''ripplez'')"
proof -
  have m: "light_style_match ''ripple'' \<noteq> None"
    by (simp add: light_style_match_def programs_def colours_def strip_prefix_def at_end_def)
  have b: "map_of brightness_map 3 = Some 0x24" by (simp add: brightness_map_def)
  have e: "get_light_style_code ''ripplez'' 3 0 = Inl (StyleNotFound ''ripplez'')"
    by (simp add: style_defs)
  from speed_stored_unchecked[of "''ripple''" 3 "0x24" 11] m b
  have 1: "\<exists>f. get_light_style_code ''ripple'' 3 11 = Inr f \<and> length f = 8 \<and> f ! 3 = 11"
    by blast
  from speed_stored_unchecked[of "''ripplez''" 3 _ 0 "StyleNotFound ''ripplez''" 11] e
  have 2: "get_light_style_code ''ripplez'' 3 11 = Inl (StyleNotFound ''ripplez'')" by blast
  from 1 2 show ?thesis by blast
qed

section \<open>Properties of the control center\<close>

subsection \<open>The methods, branch by branch\<close>

declare mono_color_setup.simps [simp del] h_alt_color_setup.simps [simp del]
  v_alt_color_setup.simps [simp del]

lemma bulk_write_calls:
  "bulk_write n payload h = h\<lparr>calls := calls h @ replicate n (Write payload)\<rparr>"
proof (induction n arbitrary: h)
  case 0
  then show ?case by simp
next
  case (Suc n)
  then show ?case by (simp add: replicate_app_Cons_same)
qed

lemma adjust_brightness_default:
  "adjust_brightness self device None =
     (Inr (), self\<lparr>brightness := Some 4\<rparr>,
      ctrl_write [0x08, 0x02, 0x33, 0x00, 0x32, 0x00, 0x00, 0x00] device)"
  by (simp add: brightness_map_def)

lemma adjust_brightness_zero:
  "adjust_brightness self device (Some 0) = adjust_brightness self device None"
  by simp

lemma mono_set:
  "truthy (brightness self) \<Longrightarrow>
   mono_color_setup gm self device c =
     (case gm c of
        Inl e \<Rightarrow> (Inl e, self, color_scheme_setup device 0x01)
      | Inr v \<Rightarrow> (Inr (), self, bulk_write 8 v (color_scheme_setup device 0x01)))"
  by (subst mono_color_setup.simps) (simp add: Let_def)

lemma mono_unset:
  "\<not> truthy (brightness self) \<Longrightarrow>
   mono_color_setup gm self device c =
     mono_color_setup gm (self\<lparr>brightness := Some 4\<rparr>)
       (ctrl_write [0x08, 0x02, 0x33, 0x00, 0x32, 0x00, 0x00, 0x00] device) c"
  by (subst mono_color_setup.simps) (simp add: brightness_map_def Let_def)

lemma h_alt_set:
  "truthy (brightness self) \<Longrightarrow>
   h_alt_color_setup gh self device a b =
     (case gh a b of
        Inl e \<Rightarrow> (Inl e, self, color_scheme_setup device 0x01)
      | Inr v \<Rightarrow> (Inr (), self, bulk_write 8 v (color_scheme_setup device 0x01)))"
  by (subst h_alt_color_setup.simps) (simp add: Let_def)

lemma h_alt_unset:
  "\<not> truthy (brightness self) \<Longrightarrow>
   h_alt_color_setup gh self device a b =
     h_alt_color_setup gh (self\<lparr>brightness := Some 4\<rparr>)
       (ctrl_write [0x08, 0x02, 0x33, 0x00, 0x32, 0x00, 0x00, 0x00] device) a b"
  by (subst h_alt_color_setup.simps) (simp add: brightness_map_def Let_def)

lemma v_alt_set:
  "truthy (brightness self) \<Longrightarrow>
   v_alt_color_setup gv self device a b =
     (case gv a b of
        Inl e \<Rightarrow> (Inl e, self, color_scheme_setup device 0x01)
      | Inr v \<Rightarrow> (Inr (), self, bulk_write 8 v (color_scheme_setup device 0x01)))"
  by (subst v_alt_color_setup.simps) (simp add: Let_def)

lemma v_alt_unset:
  "\<not> truthy (brightness self) \<Longrightarrow>
   v_alt_color_setup gv self device a b =
     v_alt_color_setup gv (self\<lparr>brightness := Some 4\<rparr>)
       (ctrl_write [0x08, 0x02, 0x33, 0x00, 0x32, 0x00, 0x00, 0x00] device) a b"
  by (subst v_alt_color_setup.simps) (simp add: brightness_map_def Let_def)

lemma upload_after_default:
  "bulk_write 8 v
     (color_scheme_setup
        (ctrl_write [0x08, 0x02, 0x33, 0x00, 0x32, 0x00, 0x00, 0x00] device) 0x01) =
   device\<lparr>calls := calls device @ bootstrap_calls device v\<rparr>"
  by (simp add: bulk_write_calls color_scheme_setup_def ctrl_write_def ctrl_call_def
      bootstrap_calls_def)

subsection \<open>Bulk writes come after a brightness-set transfer\<close>

lemma bulk_guarded_append:
  "bulk_guarded seen (xs @ ys) =
     (bulk_guarded seen xs \<and> bulk_guarded (seen \<or> list_ex is_brightness_set xs) ys)"
proof (induction xs arbitrary: seen)
  case Nil
  then show ?case by simp
next
  case (Cons x xs)
  show ?case
  proof (cases x)
    case (Ctrl_transfer t r v i payload)
    with Cons show ?thesis by (auto simp: disj_ac)
  next
    case (Write payload)
    with Cons show ?thesis by (auto simp: is_brightness_set_def)
  qed
qed

lemma bulk_guarded_writes: "bulk_guarded True (replicate n (Write v))"
  by (induction n) simp_all

lemma bulk_guarded_ctrl: "bulk_guarded seen [ctrl_call h f]"
  by (simp add: ctrl_call_def)

lemma bulk_guarded_ctrl_cons:
  "bulk_guarded seen (ctrl_call h f # cs) =
     bulk_guarded (seen \<or> is_brightness_set (ctrl_call h f)) cs"
  by (simp add: ctrl_call_def)

lemma brightness_set_call:
  "is_brightness_set (ctrl_call h [0x08, 0x02, 0x33, 0x00, code, 0x00, 0x00, 0x00])"
  by (simp add: ctrl_call_def is_brightness_set_def)

lemma calls_ctrl_write: "calls (ctrl_write f h) = calls h @ [ctrl_call h f]"
  by (simp add: ctrl_write_def)

lemma guarded_ctrl_write:
  "bulk_guarded False (calls h) \<Longrightarrow> bulk_guarded False (calls (ctrl_write f h))"
  by (simp add: calls_ctrl_write bulk_guarded_append bulk_guarded_ctrl)

lemma guarded_upload:
  assumes "bulk_guarded False (calls h)" "list_ex is_brightness_set (calls h)"
  shows "bulk_guarded False (calls (color_scheme_setup h s))"
    and "bulk_guarded False (calls (bulk_write n v (color_scheme_setup h s)))"
  using assms
  by (simp_all add: color_scheme_setup_def calls_ctrl_write bulk_write_calls
      bulk_guarded_append bulk_guarded_ctrl bulk_guarded_ctrl_cons bulk_guarded_writes)

lemma guarded_set:
  assumes "bulk_guarded False (calls h)" "list_ex is_brightness_set (calls h)"
  shows "bulk_guarded False (calls (snd (snd
           (case r of
              Inl e \<Rightarrow> (Inl e, self, color_scheme_setup h 0x01)
            | Inr v \<Rightarrow> (Inr (), self, bulk_write 8 v (color_scheme_setup h 0x01))))))"
  using guarded_upload[OF assms] by (cases r) simp_all

lemma guarded_after_default:
  assumes "bulk_guarded False (calls h)"
  shows "bulk_guarded False
           (calls (ctrl_write [0x08, 0x02, 0x33, 0x00, 0x32, 0x00, 0x00, 0x00] h))"
    and "list_ex is_brightness_set
           (calls (ctrl_write [0x08, 0x02, 0x33, 0x00, 0x32, 0x00, 0x00, 0x00] h))"
  using assms
  by (simp_all add: calls_ctrl_write bulk_guarded_append bulk_guarded_ctrl brightness_set_call)

lemma mono_guarded:
  assumes g: "bulk_guarded False (calls h)"
    and b: "truthy (brightness self) \<longrightarrow> list_ex is_brightness_set (calls h)"
  shows "bulk_guarded False (calls (snd (snd (mono_color_setup gm self h c))))"
proof (cases "truthy (brightness self)")
  case True
  with b have "list_ex is_brightness_set (calls h)" by simp
  from guarded_set[OF g this] True show ?thesis by (simp add: mono_set)
next
  case False
  have "truthy (brightness (self\<lparr>brightness := Some 4\<rparr>))" by (simp add: truthy_def)
  with False guarded_set[OF guarded_after_default[OF g]] show ?thesis
    by (simp add: mono_unset mono_set)
qed

lemma h_alt_guarded:
  assumes g: "bulk_guarded False (calls h)"
    and b: "truthy (brightness self) \<longrightarrow> list_ex is_brightness_set (calls h)"
  shows "bulk_guarded False (calls (snd (snd (h_alt_color_setup gh self h x y))))"
proof (cases "truthy (brightness self)")
  case True
  with b have "list_ex is_brightness_set (calls h)" by simp
  from guarded_set[OF g this] True show ?thesis by (simp add: h_alt_set)
next
  case False
  have "truthy (brightness (self\<lparr>brightness := Some 4\<rparr>))" by (simp add: truthy_def)
  with False guarded_set[OF guarded_after_default[OF g]] show ?thesis
    by (simp add: h_alt_unset h_alt_set)
qed

lemma v_alt_guarded:
  assumes g: "bulk_guarded False (calls h)"
    and b: "truthy (brightness self) \<longrightarrow> list_ex is_brightness_set (calls h)"
  shows "bulk_guarded False (calls (snd (snd (v_alt_color_setup gv self h x y))))"
proof (cases "truthy (brightness self)")
  case True
  with b have "list_ex is_brightness_set (calls h)" by simp
  from guarded_set[OF g this] True show ?thesis by (simp add: v_alt_set)
next
  case False
  have "truthy (brightness (self\<lparr>brightness := Some 4\<rparr>))" by (simp add: truthy_def)
  with False guarded_set[OF guarded_after_default[OF g]] show ?thesis
    by (simp add: v_alt_unset v_alt_set)
qed

lemma calls_of_some: "calls_of (out, e, Some (control, h)) = calls h"
  by (simp add: calls_of_def)

lemma calls_of_none: "calls_of (out, e, None) = []"
  by (simp add: calls_of_def)

lemma calls_of_ended: "calls_of (ended out r) = calls (snd (snd r))"
  by (cases r) (auto simp: calls_of_def ended_def split: sum.split)

lemma adjust_brightness_level:
  "n \<noteq> 0 \<Longrightarrow>
   adjust_brightness self h (Some n) =
     (case map_of brightness_map n of
        None \<Rightarrow> (Inl (KeyError (IntKey n)), self\<lparr>brightness := Some n\<rparr>, h)
      | Some code \<Rightarrow>
          (Inr (), self\<lparr>brightness := Some n\<rparr>,
           ctrl_write [0x08, 0x02, 0x33, 0x00, code, 0x00, 0x00, 0x00] h))"
  by (simp add: Let_def)

lemma colour_part_guarded:
  assumes g: "bulk_guarded False (calls h)"
    and b: "truthy (brightness self) \<longrightarrow> list_ex is_brightness_set (calls h)"
  shows "bulk_guarded False (calls_of
     (case given col of
        Some color \<Rightarrow> ended [] (mono_color_setup gm self h color)
      | None \<Rightarrow>
          (case ha of
             Some (a, b) \<Rightarrow> ended [] (h_alt_color_setup gh self h a b)
           | None \<Rightarrow>
               (case va of
                  Some (a, b) \<Rightarrow> ended [] (v_alt_color_setup gv self h a b)
                | None \<Rightarrow> ([InvalidOrAbsentCommand], Returned, Some (self, h))))))"
  using mono_guarded[OF g b] h_alt_guarded[OF g b] v_alt_guarded[OF g b] g
  by (auto simp: calls_of_ended calls_of_some split: option.split)

lemma dispatch_guarded:
  "bulk_guarded False (calls_of (dispatch gm gh gv (ControlCenter_init vp) parsed d))"
proof -
  let ?c = "ControlCenter_init vp" and ?h = "DeviceHandler_init d"
  have h0: "bulk_guarded False (calls ?h)" by (simp add: DeviceHandler_init_def)
  have c0: "\<not> truthy (brightness ?c)" by (simp add: ControlCenter_init_def truthy_def)
  show ?thesis
  proof (cases "parsed_disable parsed")
    case True
    then show ?thesis
      using guarded_ctrl_write[OF h0]
      by (simp add: dispatch_def Let_def calls_of_ended disable_keyboard_def)
  next
    case nd: False
    show ?thesis
    proof (cases "given (parsed_style parsed)")
      case (Some style)
      with nd show ?thesis
        using guarded_ctrl_write[OF h0] h0
        by (simp add: dispatch_def calls_of_ended keyboard_style_def Let_def split: sum.split)
    next
      case None
      show ?thesis
      proof (cases "truthy (parsed_brightness parsed)")
        case False
        with None nd c0 show ?thesis
          using colour_part_guarded[where h = ?h and self = ?c and col = "parsed_color parsed"
              and gm = gm and ha = "parsed_h_alt parsed" and gh = gh
              and va = "parsed_v_alt parsed" and gv = gv, OF h0]
          by (simp add: dispatch_def Let_def)
      next
        case True
        then obtain n where n: "parsed_brightness parsed = Some n" "n \<noteq> 0"
          by (auto simp: truthy_def split: option.splits)
        show ?thesis
        proof (cases "map_of brightness_map n")
          case None': None
          with None nd True n show ?thesis
            by (simp add: dispatch_def Let_def adjust_brightness_level calls_of_some
                DeviceHandler_init_def)
        next
          case (Some code)
          let ?h1 = "ctrl_write [0x08, 0x02, 0x33, 0x00, code, 0x00, 0x00, 0x00] ?h"
          have g1: "bulk_guarded False (calls ?h1)" by (rule guarded_ctrl_write[OF h0])
          have b1: "list_ex is_brightness_set (calls ?h1)"
            by (simp add: calls_ctrl_write brightness_set_call)
          from None nd True n Some show ?thesis
            using colour_part_guarded[where h = ?h1 and self = "?c\<lparr>brightness := Some n\<rparr>"
                and col = "parsed_color parsed" and gm = gm and ha = "parsed_h_alt parsed"
                and gh = gh and va = "parsed_v_alt parsed" and gv = gv, OF g1] b1
            by (simp add: dispatch_def Let_def adjust_brightness_level)
        qed
      qed
    qed
  qed
qed

lemma main_guarded: "bulk_guarded False (calls_of (main gm gh gv vp parsed devices))"
proof (cases "parsed_list_devices parsed")
  case True
  then show ?thesis by (simp add: main_def Let_def calls_of_none)
next
  case False
  show ?thesis
  proof (cases "select_device parsed devices")
    case (Inl oe)
    with False show ?thesis by (cases oe) (simp add: main_def Let_def calls_of_none)
  next
    case (Inr d)
    with False dispatch_guarded[of gm gh gv vp parsed d] show ?thesis by (simp add: main_def Let_def)
  qed
qed

subsection \<open>The claims about the control center and the program\<close>

text \<open>
  C1. Each colour-table method (mono, horizontal-alternating, vertical-alternating),
  called on a control center with no brightness stored and with a colour vector \<open>v\<close>
  returned for its colour names, returns normally, stores level 4, and makes exactly
  these calls on the device, in this order: the control transfer of the brightness-set
  frame for level 4, [0x08, 0x02, 0x33, 0x00, 0x32, 0, 0, 0], the control transfer of
  the persist frame, [0x12, 0x00, 0x00, 0x08, 0x01, 0, 0, 0], and eight bulk writes of
  \<open>v\<close>. And in every run of the program, whatever the command line, the devices and
  the colour-vector functions, each bulk write has a brightness-set control transfer
  before it.
\<close>

theorem color_table_bootstrap:
  "(brightness self = None \<and> gm c = Inr v \<longrightarrow>
      mono_color_setup gm self device c =
        (Inr (), self\<lparr>brightness := Some 4\<rparr>,
         device\<lparr>calls := calls device @ bootstrap_calls device v\<rparr>)) \<and>
   (brightness self = None \<and> gh a b = Inr v \<longrightarrow>
      h_alt_color_setup gh self device a b =
        (Inr (), self\<lparr>brightness := Some 4\<rparr>,
         device\<lparr>calls := calls device @ bootstrap_calls device v\<rparr>)) \<and>
   (brightness self = None \<and> gv a b = Inr v \<longrightarrow>
      v_alt_color_setup gv self device a b =
        (Inr (), self\<lparr>brightness := Some 4\<rparr>,
         device\<lparr>calls := calls device @ bootstrap_calls device v\<rparr>)) \<and>
   bulk_guarded False (calls_of (main gm gh gv vp parsed devices))"
proof (intro conjI impI)
  assume "brightness self = None \<and> gm c = Inr v"
  then show "mono_color_setup gm self device c =
        (Inr (), self\<lparr>brightness := Some 4\<rparr>,
         device\<lparr>calls := calls device @ bootstrap_calls device v\<rparr>)"
    by (simp add: mono_unset mono_set truthy_def upload_after_default)
next
  assume "brightness self = None \<and> gh a b = Inr v"
  then show "h_alt_color_setup gh self device a b =
        (Inr (), self\<lparr>brightness := Some 4\<rparr>,
         device\<lparr>calls := calls device @ bootstrap_calls device v\<rparr>)"
    by (simp add: h_alt_unset h_alt_set truthy_def upload_after_default)
next
  assume "brightness self = None \<and> gv a b = Inr v"
  then show "v_alt_color_setup gv self device a b =
        (Inr (), self\<lparr>brightness := Some 4\<rparr>,
         device\<lparr>calls := calls device @ bootstrap_calls device v\<rparr>)"
    by (simp add: v_alt_unset v_alt_set truthy_def upload_after_default)
next
  show "bulk_guarded False (calls_of (main gm gh gv vp parsed devices))"
    by (rule main_guarded)
qed

theorem color_table_bootstrap_witness:
  "mono_color_setup (\<lambda>c. Inr [255, 0, 0]) (ControlCenter_init [])
     (DeviceHandler_init \<lparr>idVendor = 0x048d, idProduct = 0xce00\<rparr>) ''red'' =
     (Inr (), \<lparr>vendor_products = [], brightness = Some 4\<rparr>,
      \<lparr>usb_dev = \<lparr>idVendor = 0x048d, idProduct = 0xce00\<rparr>,
       bmRequestType = 0x21, bRequest = 0x09, wValue = 0x300, wIndex = 1,
       calls =
         [Ctrl_transfer 0x21 0x09 0x300 1 [0x08, 0x02, 0x33, 0x00, 0x32, 0x00, 0x00, 0x00],
          Ctrl_transfer 0x21 0x09 0x300 1 [0x12, 0x00, 0x00, 0x08, 0x01, 0x00, 0x00, 0x00]] @
         replicate 8 (Write [255, 0, 0])\<rparr>)"
  using color_table_bootstrap[where self = "ControlCenter_init []" and gm = "\<lambda>c. Inr [255, 0, 0]"
      and c = "''red''" and v = "[255, 0, 0]"
      and device = "DeviceHandler_init \<lparr>idVendor = 0x048d, idProduct = 0xce00\<rparr>"]
  by (simp add: ControlCenter_init_def DeviceHandler_init_def bootstrap_calls_def ctrl_call_def)

text \<open>
  C8. \<open>disable_keyboard\<close> makes one call on the device, the control transfer of the
  power-off frame (0x08, 0x01, 0x00, 0x00, 0x00, 0x00, 0x00, 0x00), and returns the
  control center as it was, its stored brightness with it.
\<close>

theorem disable_power_off:
  "disable_keyboard self device =
     (Inr (), self,
      device\<lparr>calls := calls device @
        [Ctrl_transfer (bmRequestType device) (bRequest device) (wValue device) (wIndex device)
           [0x08, 0x01, 0x00, 0x00, 0x00, 0x00, 0x00, 0x00]]\<rparr>)"
  by (simp add: disable_keyboard_def ctrl_write_def ctrl_call_def)

text \<open>
  C9. \<open>adjust_brightness\<close> with level 0 does what it does with no level: it returns
  normally, stores 4 as the brightness and makes one call, the control transfer of the
  frame [0x08, 0x02, 0x33, 0x00, 0x32, 0, 0, 0] of the highest level.
\<close>

theorem brightness_zero_is_default:
  "adjust_brightness self device (Some 0) = adjust_brightness self device None \<and>
   adjust_brightness self device (Some 0) =
     (Inr (), self\<lparr>brightness := Some 4\<rparr>,
      device\<lparr>calls := calls device @
        [Ctrl_transfer (bmRequestType device) (bRequest device) (wValue device) (wIndex device)
           [0x08, 0x02, 0x33, 0x00, 0x32, 0x00, 0x00, 0x00]]\<rparr>)"
  by (simp add: brightness_map_def ctrl_write_def ctrl_call_def)

text \<open>
  Where the selection of the device ends the program. When the operation is not the
  listing of devices, each of these ends it with a message and \<open>sys.exit(1)\<close> before a
  device handler exists, so with no control transfer and no bulk write made: an index
  other than 0 that is below 1 or above the number of devices found; no index, or the
  index 0, with no device found; no index, or the index 0, with more than one device
  found. What is left of the indexes outside the range is the index 0 with exactly one
  device found.
\<close>

lemma device_selection_errors:
  "\<not> parsed_list_devices parsed \<longrightarrow>
     (parsed_device parsed = Some d \<and> d \<noteq> 0 \<and> (d < 1 \<or> int (length devices) < d) \<longrightarrow>
        main gm gh gv vp parsed devices =
          ([DeviceDoesNotExist d (length devices)], SysExit 1, None)) \<and>
     ((parsed_device parsed = None \<or> parsed_device parsed = Some 0) \<and> devices = [] \<longrightarrow>
        main gm gh gv vp parsed devices = ([NoDeviceFound], SysExit 1, None)) \<and>
     ((parsed_device parsed = None \<or> parsed_device parsed = Some 0) \<and> 1 < length devices \<longrightarrow>
        main gm gh gv vp parsed devices = ([FoundMultipleDevices], SysExit 1, None))"
  by (auto simp: main_def select_device_def Let_def)

lemma device_selection_errors_example:
  "main (\<lambda>c. Inl (ColorVectorError c)) (\<lambda>a b. Inl (ColorVectorError a))
     (\<lambda>a b. Inl (ColorVectorError a)) []
     \<lparr>parsed_list_devices = False, parsed_color = None, parsed_h_alt = None,
      parsed_v_alt = None, parsed_style = None, parsed_disable = True,
      parsed_device = Some 2, parsed_brightness = None, parsed_speed = None\<rparr>
     [\<lparr>idVendor = 0x048d, idProduct = 0xce00\<rparr>] =
     ([DeviceDoesNotExist 2 1], SysExit 1, None) \<and>
   main (\<lambda>c. Inl (ColorVectorError c)) (\<lambda>a b. Inl (ColorVectorError a))
     (\<lambda>a b. Inl (ColorVectorError a)) []
     \<lparr>parsed_list_devices = False, parsed_color = None, parsed_h_alt = None,
      parsed_v_alt = None, parsed_style = None, parsed_disable = True,
      parsed_device = Some 0, parsed_brightness = None, parsed_speed = None\<rparr>
     [] =
     ([NoDeviceFound], SysExit 1, None) \<and>
   main (\<lambda>c. Inl (ColorVectorError c)) (\<lambda>a b. Inl (ColorVectorError a))
     (\<lambda>a b. Inl (ColorVectorError a)) []
     \<lparr>parsed_list_devices = False, parsed_color = None, parsed_h_alt = None,
      parsed_v_alt = None, parsed_style = None, parsed_disable = True,
      parsed_device = None, parsed_brightness = None, parsed_speed = None\<rparr>
     [\<lparr>idVendor = 0x048d, idProduct = 0xce00\<rparr>, \<lparr>idVendor = 0x048d, idProduct = 0x600b\<rparr>] =
     ([FoundMultipleDevices], SysExit 1, None)"
proof -
  let ?gm = "\<lambda>c. Inl (ColorVectorError c) :: int list result"
  let ?g2 = "\<lambda>a b. Inl (ColorVectorError a) :: int list result"
  let ?p = "\<lparr>parsed_list_devices = False, parsed_color = None, parsed_h_alt = None,
      parsed_v_alt = None, parsed_style = None, parsed_disable = True,
      parsed_device = None, parsed_brightness = None, parsed_speed = None\<rparr>"
  let ?d1 = "\<lparr>idVendor = 0x048d, idProduct = 0xce00\<rparr>"
  let ?d2 = "\<lparr>idVendor = 0x048d, idProduct = 0x600b\<rparr>"
  have 1: "main ?gm ?g2 ?g2 [] (?p\<lparr>parsed_device := Some 2\<rparr>) [?d1] =
     ([DeviceDoesNotExist 2 1], SysExit 1, None)"
    using device_selection_errors[where parsed = "?p\<lparr>parsed_device := Some 2\<rparr>" and d = 2
        and devices = "[?d1]" and gm = ?gm and gh = ?g2 and gv = ?g2 and vp = "[]"]
    by simp
  have 2: "main ?gm ?g2 ?g2 [] (?p\<lparr>parsed_device := Some 0\<rparr>) [] =
     ([NoDeviceFound], SysExit 1, None)"
    using device_selection_errors[where parsed = "?p\<lparr>parsed_device := Some 0\<rparr>"
        and devices = "[]" and gm = ?gm and gh = ?g2 and gv = ?g2 and vp = "[]"]
    by simp
  have 3: "main ?gm ?g2 ?g2 [] ?p [?d1, ?d2] = ([FoundMultipleDevices], SysExit 1, None)"
    using device_selection_errors[where parsed = ?p and devices = "[?d1, ?d2]"
        and gm = ?gm and gh = ?g2 and gv = ?g2 and vp = "[]"]
    by simp
  from 1 2 3 show ?thesis by simp
qed

text \<open>
  The index 0 with exactly one device found selects that device, as no index does:
  \<open>if parsed.device:\<close> is false for 0, so the test \<open>parsed.device < 1\<close> of the other
  branch never sees it.
\<close>

lemma index_zero_as_no_index:
  "parsed_device parsed = Some 0 \<Longrightarrow>
     select_device parsed devices = select_device (parsed\<lparr>parsed_device := None\<rparr>) devices"
  "parsed_device parsed = Some 0 \<Longrightarrow> devices = [device] \<Longrightarrow>
     select_device parsed devices = Inr device"
  by (simp_all add: select_device_def)

text \<open>
  C7. An index outside the range from 1 to the number of devices found, 0 named among
  them, is to end the program with a message and an exit status other than 0. With the
  index 0 and exactly one device found the program does not: here with the disable
  operation it prints nothing, makes the handler of the one device, sends it the
  power-off frame and returns normally.
\<close>

theorem index_zero_selects_device:
  "main (\<lambda>c. Inl (ColorVectorError c)) (\<lambda>a b. Inl (ColorVectorError a))
     (\<lambda>a b. Inl (ColorVectorError a)) []
     \<lparr>parsed_list_devices = False, parsed_color = None, parsed_h_alt = None,
      parsed_v_alt = None, parsed_style = None, parsed_disable = True,
      parsed_device = Some 0, parsed_brightness = None, parsed_speed = None\<rparr>
     [\<lparr>idVendor = 0x048d, idProduct = 0xce00\<rparr>] =
     ([], Returned,
      Some (\<lparr>vendor_products = [], brightness = None\<rparr>,
            \<lparr>usb_dev = \<lparr>idVendor = 0x048d, idProduct = 0xce00\<rparr>,
             bmRequestType = 0x21, bRequest = 0x09, wValue = 0x300, wIndex = 1,
             calls = [Ctrl_transfer 0x21 0x09 0x300 1
                        [0x08, 0x01, 0x00, 0x00, 0x00, 0x00, 0x00, 0x00]]\<rparr>))"
  by (simp add: main_def select_device_def dispatch_def Let_def ended_def disable_keyboard_def
      ctrl_write_def ctrl_call_def ControlCenter_init_def DeviceHandler_init_def)

end
